theory Spec2Isabelle
  imports Main "HOL-Library.AList" "HOL-Library.Sublist" "HOL-Library.Word"
begin

section \<open>Python values\<close>

text \<open>
  The service moves untyped Python values around: the option dictionary handed to yt-dlp,
  the metadata dictionary it returns, and the progress dictionaries it passes to hooks.
  A dictionary with string keys is an association list in insertion order (its keys are
  distinct). A float is its 64 IEEE bits: the service never computes with one, it only
  passes it on and asks whether it is zero. A caller-supplied callable is a handle together
  with its truth value: a plain function is true, an object with \<^verbatim>\<open>__call__\<close> is
  false when its \<^verbatim>\<open>__bool__\<close> or \<^verbatim>\<open>__len__\<close> says so.
\<close>

datatype callback = Callback (cb_id: nat) (cb_truthy: bool)

datatype pyval =
    PNone
  | PBool bool
  | PInt int
  | PFloat "64 word"
  | PStr string
  | PList "pyval list"
  | PDict "(string \<times> pyval) list"
  | PLogger nat "callback option"
  | PHook "callback option"

type_synonym pydict = "(string \<times> pyval) list"

text \<open>
  An exception is known by whether \<^verbatim>\<open>except Exception\<close> catches it and by
  \<^verbatim>\<open>str(exc)\<close>. \<open>BaseException\<close> stands for the classes outside
  \<^verbatim>\<open>Exception\<close> (KeyboardInterrupt, SystemExit).
\<close>

datatype py_exn = Exception string | BaseException string

fun str_exn :: "py_exn \<Rightarrow> string" where
  "str_exn (Exception m) = m"
| "str_exn (BaseException m) = m"

fun truthy :: "pyval \<Rightarrow> bool" where
  "truthy PNone = False"
| "truthy (PBool b) = b"
| "truthy (PInt i) = (i \<noteq> 0)"
| "truthy (PFloat w) = (take_bit 63 w \<noteq> 0)"
| "truthy (PStr s) = (s \<noteq> [])"
| "truthy (PList xs) = (xs \<noteq> [])"
| "truthy (PDict d) = (d \<noteq> [])"
| "truthy (PLogger lg cb) = True"
| "truthy (PHook cb) = True"

fun type_name :: "pyval \<Rightarrow> string" where
  "type_name PNone = ''NoneType''"
| "type_name (PBool b) = ''bool''"
| "type_name (PInt i) = ''int''"
| "type_name (PFloat w) = ''float''"
| "type_name (PStr s) = ''str''"
| "type_name (PList xs) = ''list''"
| "type_name (PDict d) = ''dict''"
| "type_name (PLogger lg cb) = ''_YtDlpLogger''"
| "type_name (PHook cb) = ''function''"

text \<open>The interpreter's own errors, with the message text of CPython 3.11 to 3.13.\<close>

definition quoted :: "string \<Rightarrow> string" where
  "quoted s = CHR 0x27 # s @ [CHR 0x27]"

definition no_attribute :: "pyval \<Rightarrow> string \<Rightarrow> py_exn" where
  "no_attribute v a =
     Exception (quoted (type_name v) @ '' object has no attribute '' @ quoted a)"

definition not_a_container :: "pyval \<Rightarrow> py_exn" where
  "not_a_container v =
     Exception (''argument of type '' @ quoted (type_name v) @ '' is not iterable'')"

definition not_iterable :: "pyval \<Rightarrow> py_exn" where
  "not_iterable v = Exception (quoted (type_name v) @ '' object is not iterable'')"

definition not_subscriptable :: "pyval \<Rightarrow> py_exn" where
  "not_subscriptable v = Exception (quoted (type_name v) @ '' object is not subscriptable'')"

subsection \<open>Dictionary operations\<close>

text \<open>\<^verbatim>\<open>d.get(k)\<close>: the value, or None.\<close>

definition dict_get :: "pydict \<Rightarrow> string \<Rightarrow> pyval" where
  "dict_get d k = (case map_of d k of None \<Rightarrow> PNone | Some v \<Rightarrow> v)"

text \<open>\<^verbatim>\<open>d.setdefault(k, v)\<close>: the dictionary afterwards and the value returned.\<close>

definition dict_setdefault :: "pydict \<Rightarrow> string \<Rightarrow> pyval \<Rightarrow> pydict \<times> pyval" where
  "dict_setdefault d k v =
     (case map_of d k of None \<Rightarrow> (AList.update k v d, v) | Some x \<Rightarrow> (d, x))"

text \<open>\<^verbatim>\<open>d.update(other)\<close>: every item of \<open>other\<close> is stored, in its order.\<close>

definition dict_update :: "pydict \<Rightarrow> pydict \<Rightarrow> pydict" where
  "dict_update d other = fold (\<lambda>(k, v). AList.update k v) other d"

text \<open>\<^verbatim>\<open>v.get(k, default)\<close> on any value: only a dict has the method.\<close>

fun py_get :: "pyval \<Rightarrow> string \<Rightarrow> pyval \<Rightarrow> py_exn + pyval" where
  "py_get (PDict d) k dflt = Inr (case map_of d k of None \<Rightarrow> dflt | Some v \<Rightarrow> v)"
| "py_get v k dflt = Inl (no_attribute v ''get'')"

text \<open>\<^verbatim>\<open>k in v\<close> for a string \<open>k\<close>: key of a dict, element of a list, substring of a str.\<close>

fun py_contains :: "string \<Rightarrow> pyval \<Rightarrow> py_exn + bool" where
  "py_contains k (PDict d) = Inr (map_of d k \<noteq> None)"
| "py_contains k (PList xs) = Inr (PStr k \<in> set xs)"
| "py_contains k (PStr s) = Inr (sublist k s)"
| "py_contains k v = Inl (not_a_container v)"

text \<open>\<^verbatim>\<open>v[k]\<close> for a string \<open>k\<close>.\<close>

fun py_getitem :: "pyval \<Rightarrow> string \<Rightarrow> py_exn + pyval" where
  "py_getitem (PDict d) k =
     (case map_of d k of None \<Rightarrow> Inl (Exception (quoted k)) | Some v \<Rightarrow> Inr v)"
| "py_getitem (PList xs) k = Inl (Exception ''list indices must be integers or slices, not str'')"
| "py_getitem (PStr s) k = Inl (Exception (''string indices must be integers, not '' @ quoted ''str''))"
| "py_getitem v k = Inl (not_subscriptable v)"

text \<open>The items a \<^verbatim>\<open>for\<close> loop over the value visits.\<close>

fun py_iter :: "pyval \<Rightarrow> py_exn + pyval list" where
  "py_iter (PList xs) = Inr xs"
| "py_iter (PDict d) = Inr (map (\<lambda>kv. PStr (fst kv)) d)"
| "py_iter (PStr s) = Inr (map (\<lambda>c. PStr [c]) s)"
| "py_iter v = Inl (not_iterable v)"

section \<open>The data model (models/__init__.py)\<close>

record DownloadConfig =
  url :: string
  output_dir :: string
  filename_template :: string
  format :: string
  audio_only :: bool
  playlist_items :: "string option"
  timeout :: "int option"
  retries :: int
  proxy :: "string option"
  extra_yt_dlp_options :: pydict

text \<open>The dataclass defaults: \<^verbatim>\<open>DownloadConfig(url=u)\<close>.\<close>

definition DownloadConfig_defaults :: "string \<Rightarrow> DownloadConfig" where
  "DownloadConfig_defaults u =
     \<lparr>url = u, output_dir = ''downloads'', filename_template = ''%(title)s.%(ext)s'',
      format = ''best'', audio_only = False, playlist_items = None, timeout = None,
      retries = 3, proxy = None, extra_yt_dlp_options = []\<rparr>"

datatype event_status = Downloading | Finished | Error

record ProgressEvent =
  status :: event_status
  downloaded_bytes :: pyval
  total_bytes :: pyval
  speed :: pyval
  eta :: pyval
  filename :: pyval
  raw :: pydict

record LogEvent =
  level :: string
  message :: string
  log_context :: "pydict option"

record DownloadResult =
  success :: bool
  filepaths :: "pyval list"
  info :: pyval
  errors :: "string list"

section \<open>The service (service.py)\<close>

record service =
  default_output_dir :: string
  default_proxy :: "string option"
  logger :: nat

text \<open>
  What the service calls and does not own: yt-dlp's \<^verbatim>\<open>extract_info\<close> (option map,
  url, download flag), \<^verbatim>\<open>os.makedirs\<close>, and the caller's log callback. Each either
  returns or raises. Whatever a progress or log callback raises while yt-dlp runs comes out
  of \<^verbatim>\<open>extract_info\<close> as a raised exception. Opening and closing the
  \<^verbatim>\<open>YoutubeDL\<close> object around the call is taken to succeed.
\<close>

record env =
  extract_info :: "pydict \<Rightarrow> string \<Rightarrow> bool \<Rightarrow> py_exn + pyval"
  makedirs :: "string \<Rightarrow> py_exn option"
  call_log :: "callback \<Rightarrow> LogEvent \<Rightarrow> py_exn option"

text \<open>
  \<^verbatim>\<open>_make_progress_hook\<close> returns the closure \<^verbatim>\<open>_hook\<close> over \<open>on_progress\<close>;
  \<open>hook\<close> is what that closure does with a raw progress dictionary: it returns without
  calling anything, or it calls the callback with one event, or it raises while building
  the event (the nested \<^verbatim>\<open>.get\<close> on an \<^verbatim>\<open>info_dict\<close> that is no dict).
\<close>

definition make_progress_hook :: "callback option \<Rightarrow> pyval" where
  "make_progress_hook on_progress = PHook on_progress"

definition py_or :: "pyval \<Rightarrow> pyval \<Rightarrow> pyval" where
  "py_or a b = (if truthy a then a else b)"

definition hook :: "callback option \<Rightarrow> pydict \<Rightarrow> py_exn + (callback \<times> ProgressEvent) option" where
  "hook on_progress st =
     (case on_progress of
        None \<Rightarrow> Inr None
      | Some cb \<Rightarrow>
          (let raw_status = dict_get st ''status'';
               event_status =
                 (if raw_status = PStr ''downloading'' then Downloading
                  else if raw_status = PStr ''finished'' then Finished
                  else Error)
           in case (if truthy (dict_get st ''filename'') then Inr (dict_get st ''filename'')
                    else py_get (case map_of st ''info_dict'' of None \<Rightarrow> PDict [] | Some v \<Rightarrow> v)
                           ''filename'' PNone) of
                Inl e \<Rightarrow> Inl e
              | Inr fn \<Rightarrow>
                  Inr (Some (cb,
                    \<lparr>status = event_status,
                     downloaded_bytes = dict_get st ''downloaded_bytes'',
                     total_bytes =
                       py_or (dict_get st ''total_bytes'') (dict_get st ''total_bytes_estimate''),
                     speed = dict_get st ''speed'',
                     eta = dict_get st ''eta'',
                     filename = fn,
                     raw = st\<rparr>))))"

text \<open>\<^verbatim>\<open>os.path.join(a, b)\<close> on POSIX.\<close>

definition os_path_join :: "string \<Rightarrow> string \<Rightarrow> string" where
  "os_path_join a b =
     (if take 1 b = ''/'' then b
      else if a = [] \<or> last a = CHR ''/'' then a @ b
      else a @ ''/'' @ b)"

text \<open>\<^verbatim>\<open>a or b\<close> on optional strings: None and the empty string are false.\<close>

definition str_or :: "string option \<Rightarrow> string option \<Rightarrow> string option" where
  "str_or a b = (case a of Some s \<Rightarrow> (if s \<noteq> [] then a else b) | None \<Rightarrow> b)"

definition audio_postprocessor :: pyval where
  "audio_postprocessor =
     PDict [(''key'', PStr ''FFmpegExtractAudio''),
            (''preferredcodec'', PStr ''mp3''),
            (''preferredquality'', PStr ''192'')]"

text \<open>\<^verbatim>\<open>d.setdefault(k, []).append(x)\<close>: the list stored under \<open>k\<close> grows in place.\<close>

definition setdefault_append :: "pydict \<Rightarrow> string \<Rightarrow> pyval \<Rightarrow> py_exn + pydict" where
  "setdefault_append d k x =
     (case dict_setdefault d k (PList []) of
        (d', PList xs) \<Rightarrow> Inr (AList.update k (PList (xs @ [x])) d')
      | (d', v) \<Rightarrow> Inl (no_attribute v ''append''))"

text \<open>
  \<^verbatim>\<open>_build_yt_dlp_options\<close> up to the merge of the extra options: the derived option
  map (service.py, lines 223 to 255).
\<close>

definition derived_options ::
  "service \<Rightarrow> DownloadConfig \<Rightarrow> string \<Rightarrow> callback option \<Rightarrow> callback option
     \<Rightarrow> py_exn + pydict" where
  "derived_options self config out_dir on_progress on_log =
     (let ydl_opts =
            [(''outtmpl'', PStr (os_path_join out_dir (filename_template config))),
             (''format'', PStr (format config)),
             (''noplaylist'', PBool (playlist_items config = None)),
             (''logger'', PLogger (logger self) on_log),
             (''progress_hooks'',
                PList (case on_progress of
                         Some cb \<Rightarrow> (if cb_truthy cb then [make_progress_hook on_progress]
                                    else [])
                       | None \<Rightarrow> [])),
             (''retries'', PInt (retries config))];
          ydl_opts =
            (case str_or (proxy config) (default_proxy self) of
               Some p \<Rightarrow> (if p \<noteq> [] then AList.update ''proxy'' (PStr p) ydl_opts
                          else ydl_opts)
             | None \<Rightarrow> ydl_opts);
          ydl_opts =
            (case timeout config of
               Some t \<Rightarrow> AList.update ''socket_timeout'' (PInt t) ydl_opts
             | None \<Rightarrow> ydl_opts);
          ydl_opts =
            (case playlist_items config of
               Some p \<Rightarrow> AList.update ''playlist_items'' (PStr p) ydl_opts
             | None \<Rightarrow> ydl_opts)
      in if audio_only config
         then setdefault_append
                (fst (dict_setdefault ydl_opts ''format'' (PStr ''bestaudio/best'')))
                ''postprocessors'' audio_postprocessor
         else Inr ydl_opts)"

text \<open>\<^verbatim>\<open>_build_yt_dlp_options\<close>: the derived map with the extra options merged last.\<close>

definition build_yt_dlp_options ::
  "service \<Rightarrow> DownloadConfig \<Rightarrow> string \<Rightarrow> callback option \<Rightarrow> callback option
     \<Rightarrow> py_exn + pydict" where
  "build_yt_dlp_options self config out_dir on_progress on_log =
     (case derived_options self config out_dir on_progress on_log of
        Inl e \<Rightarrow> Inl e
      | Inr ydl_opts \<Rightarrow> Inr (dict_update ydl_opts (extra_yt_dlp_options config)))"

text \<open>\<^verbatim>\<open>get_info\<close>: the option map of a metadata-only fetch, then the library call.\<close>

definition get_info_options :: "service \<Rightarrow> string option \<Rightarrow> pydict" where
  "get_info_options self prx =
     (let ydl_opts =
            [(''skip_download'', PBool True), (''quiet'', PBool True),
             (''no_warnings'', PBool True)]
      in case str_or prx (default_proxy self) of
           Some p \<Rightarrow> (if p \<noteq> [] then AList.update ''proxy'' (PStr p) ydl_opts else ydl_opts)
         | None \<Rightarrow> ydl_opts)"

definition get_info :: "env \<Rightarrow> service \<Rightarrow> string \<Rightarrow> string option \<Rightarrow> py_exn + pyval" where
  "get_info e self u prx =
     (case extract_info e (get_info_options self prx) u False of
        Inl exc \<Rightarrow> Inl exc
      | Inr info' \<Rightarrow> Inr info')"

text \<open>
  The loop of \<^verbatim>\<open>download\<close> over the requested downloads: the exception that stopped
  it, if one did, and the paths appended so far.
\<close>

fun collect_requested :: "pyval list \<Rightarrow> pyval list \<Rightarrow> py_exn option \<times> pyval list" where
  "collect_requested [] fps = (None, fps)"
| "collect_requested (item # items) fps =
     (case py_get item ''_filename'' PNone of
        Inl exc \<Rightarrow> (Some exc, fps)
      | Inr path \<Rightarrow> collect_requested items (if truthy path then fps @ [path] else fps))"

text \<open>The inference of the file paths from the returned value (lines 121 to 127).\<close>

definition infer_filepaths :: "pyval \<Rightarrow> py_exn option \<times> pyval list" where
  "infer_filepaths info' =
     (case py_contains ''_filename'' info' of
        Inl exc \<Rightarrow> (Some exc, [])
      | Inr True \<Rightarrow>
          (case py_getitem info' ''_filename'' of
             Inl exc \<Rightarrow> (Some exc, [])
           | Inr p \<Rightarrow> (None, [p]))
      | Inr False \<Rightarrow>
          (case py_contains ''requested_downloads'' info' of
             Inl exc \<Rightarrow> (Some exc, [])
           | Inr False \<Rightarrow> (None, [])
           | Inr True \<Rightarrow>
               (case py_get info' ''requested_downloads'' (PList []) of
                  Inl exc \<Rightarrow> (Some exc, [])
                | Inr v \<Rightarrow>
                    (case py_iter v of
                       Inl exc \<Rightarrow> (Some exc, [])
                     | Inr items \<Rightarrow> collect_requested items []))))"

text \<open>
  The \<^verbatim>\<open>except Exception\<close> branch of \<^verbatim>\<open>download\<close>, entered with the exception and
  the values \<open>filepaths\<close> and \<open>info\<close> hold at that moment. An exception outside
  \<^verbatim>\<open>Exception\<close> is not caught, and one raised by the log callback leaves the handler.
\<close>

definition except_branch ::
  "env \<Rightarrow> DownloadConfig \<Rightarrow> callback option \<Rightarrow> py_exn \<Rightarrow> pyval list \<Rightarrow> pyval
     \<Rightarrow> py_exn + DownloadResult" where
  "except_branch e config on_log exc fps info' =
     (case exc of
        BaseException m \<Rightarrow> Inl exc
      | Exception m \<Rightarrow>
          (let msg = ''Download failed for URL '' @ url config @ '': '' @ str_exn exc;
               res = \<lparr>success = False, filepaths = fps, info = info', errors = [str_exn exc]\<rparr>
           in case on_log of
                None \<Rightarrow> Inr res
              | Some cb \<Rightarrow>
                  (case call_log e cb \<lparr>level = ''error'', message = msg, log_context = None\<rparr> of
                     Some exc' \<Rightarrow> Inl exc'
                   | None \<Rightarrow> Inr res)))"

text \<open>\<^verbatim>\<open>config.output_dir or self._default_output_dir\<close>.\<close>

definition effective_output_dir :: "service \<Rightarrow> DownloadConfig \<Rightarrow> string" where
  "effective_output_dir self config =
     (if output_dir config \<noteq> [] then output_dir config else default_output_dir self)"

text \<open>
  \<^verbatim>\<open>download\<close>. The calls to the process logger are left out: they return nothing and
  \<^verbatim>\<open>logging\<close> does not raise. The directory is made and the options are built before the
  \<^verbatim>\<open>try\<close>.
\<close>

definition download ::
  "env \<Rightarrow> service \<Rightarrow> DownloadConfig \<Rightarrow> callback option \<Rightarrow> callback option
     \<Rightarrow> py_exn + DownloadResult" where
  "download e self config on_progress on_log =
     (let out_dir = effective_output_dir self config
      in case makedirs e out_dir of
           Some exc \<Rightarrow> Inl exc
         | None \<Rightarrow>
             (case build_yt_dlp_options self config out_dir on_progress on_log of
                Inl exc \<Rightarrow> Inl exc
              | Inr ydl_opts \<Rightarrow>
                  (case extract_info e ydl_opts (url config) True of
                     Inl exc \<Rightarrow> except_branch e config on_log exc [] (PDict [])
                   | Inr info' \<Rightarrow>
                       (case infer_filepaths info' of
                          (Some exc, fps) \<Rightarrow> except_branch e config on_log exc fps info'
                        | (None, fps) \<Rightarrow>
                            Inr \<lparr>success = True, filepaths = fps, info = info',
                                 errors = []\<rparr>))))"

text \<open>A configuration whose extra options collide with three derived keys.\<close>

definition colliding_config :: DownloadConfig where
  "colliding_config =
     (DownloadConfig_defaults ''https://example.org/v'')
       \<lparr>extra_yt_dlp_options :=
          [(''format'', PStr ''worst''), (''noplaylist'', PBool False), (''retries'', PInt 10)]\<rparr>"

text \<open>Raw progress dictionaries: one with a zero total and an estimate, one as the spec's test has it.\<close>

definition stalled_progress :: pydict where
  "stalled_progress =
     [(''status'', PStr ''downloading''), (''downloaded_bytes'', PInt 50),
      (''total_bytes'', PInt 0), (''total_bytes_estimate'', PInt 100)]"

definition halfway_progress :: pydict where
  "halfway_progress =
     [(''status'', PStr ''downloading''), (''downloaded_bytes'', PInt 50),
      (''total_bytes'', PInt 100)]"

text \<open>Floats as yt-dlp reports them: an exact total of 0.0 and an estimate of 100.0.\<close>

definition float_progress :: pydict where
  "float_progress =
     [(''status'', PStr ''downloading''), (''total_bytes'', PFloat 0),
      (''total_bytes_estimate'', PFloat 0x4059000000000000)]"

definition named_progress :: pydict where
  "named_progress =
     [(''status'', PStr ''finished''), (''total_bytes'', PInt 100),
      (''total_bytes_estimate'', PInt 7), (''filename'', PStr ''video.mp4''),
      (''info_dict'', PDict [(''filename'', PStr ''other.mp4'')])]"

definition unnamed_progress :: pydict where
  "unnamed_progress =
     [(''status'', PStr ''downloading''), (''total_bytes'', PInt 0),
      (''total_bytes_estimate'', PInt 100), (''filename'', PStr []),
      (''info_dict'', PDict [(''filename'', PStr ''a.mp4'')])]"

text \<open>
  Environments for the examples: the directory can be made, the log callback returns, and
  the library has the given outcome whatever it is asked.
\<close>

definition quiet_env :: "py_exn + pyval \<Rightarrow> env" where
  "quiet_env outcome =
     \<lparr>extract_info = (\<lambda>opts u dl. outcome), makedirs = (\<lambda>path. None),
      call_log = (\<lambda>cb ev. None)\<rparr>"

definition raising_log_env :: env where
  "raising_log_env =
     \<lparr>extract_info = (\<lambda>opts u dl. Inl (Exception ''network unreachable'')),
      makedirs = (\<lambda>path. None),
      call_log = (\<lambda>cb ev. Some (Exception ''log sink closed''))\<rparr>"

text \<open>A plain function as a callback, and a callable object whose truth value is false.\<close>

definition print_progress :: callback where
  "print_progress = Callback 0 True"

definition print_log :: callback where
  "print_log = Callback 2 True"

definition falsy_callable :: callback where
  "falsy_callable = Callback 1 False"

definition example_service :: service where
  "example_service = \<lparr>default_output_dir = ''downloads'', default_proxy = None, logger = 0\<rparr>"

definition empty_name_info :: pyval where
  "empty_name_info =
     PDict [(''requested_downloads'',
             PList [PDict [(''_filename'', PStr [])],
                    PDict [(''_filename'', PStr ''b.mp4'')]])]"

definition two_files_info :: pyval where
  "two_files_info =
     PDict [(''requested_downloads'',
             PList [PDict [(''_filename'', PStr ''a.mp4'')],
                    PDict [(''_filename'', PStr ''b.mp4'')]])]"

section \<open>Properties of the dictionary operations\<close>

lemma map_of_dict_update:
  "map_of (dict_update d other) k =
     (case map_of (rev other) k of Some v \<Rightarrow> Some v | None \<Rightarrow> map_of d k)"
  unfolding dict_update_def
proof (induction other arbitrary: d)
  case Nil
  then show ?case by simp
next
  case (Cons kv other)
  obtain k' v' where kv: "kv = (k', v')" by (cases kv)
  show ?case
    by (simp add: kv Cons.IH AList.update_conv' map_add_def split: option.splits)
qed

lemma map_of_rev_distinct:
  assumes "distinct (map fst xs)"
  shows "map_of (rev xs) = map_of xs"
proof -
  have "distinct (map fst (rev xs))" using assms by (simp add: rev_map[symmetric])
  then show ?thesis using assms by (simp add: map_of_inject_set)
qed

lemma dict_update_absent:
  assumes "map_of other k = None"
  shows "map_of (dict_update d other) k = map_of d k"
proof -
  from assms have "k \<notin> fst ` set other" by (simp add: map_of_eq_None_iff)
  then have "map_of (rev other) k = None" by (simp add: map_of_eq_None_iff)
  then show ?thesis by (simp add: map_of_dict_update)
qed

lemma dict_update_present:
  "distinct (map fst other) \<Longrightarrow> map_of other k = Some v
     \<Longrightarrow> map_of (dict_update d other) k = Some v"
  by (simp add: map_of_dict_update map_of_rev_distinct)

lemma setdefault_present:
  "map_of d k = Some x \<Longrightarrow> dict_setdefault d k v = (d, x)"
  by (simp add: dict_setdefault_def)

lemma setdefault_append_absent:
  "map_of d k = None \<Longrightarrow> setdefault_append d k x = Inr (AList.update k (PList [x]) d)"
  by (simp add: setdefault_append_def dict_setdefault_def)

section \<open>The option map\<close>

text \<open>The derived map always exists, and these are its entries the properties below need.\<close>

lemma derived_options_lookup:
  "\<exists>d. derived_options self config out p l = Inr d \<and>
       map_of d ''format'' = Some (PStr (format config)) \<and>
       map_of d ''noplaylist'' = Some (PBool (playlist_items config = None)) \<and>
       map_of d ''playlist_items'' = map_option PStr (playlist_items config) \<and>
       map_of d ''progress_hooks'' =
         Some (PList (case p of None \<Rightarrow> []
                      | Some cb \<Rightarrow> (if cb_truthy cb then [make_progress_hook (Some cb)] else []))) \<and>
       map_of d ''postprocessors'' =
         (if audio_only config then Some (PList [audio_postprocessor]) else None)"
proof -
  define o1 where "o1 =
    [(''outtmpl'', PStr (os_path_join out (filename_template config))),
     (''format'', PStr (format config)),
     (''noplaylist'', PBool (playlist_items config = None)),
     (''logger'', PLogger (logger self) l),
     (''progress_hooks'',
        PList (case p of
                 Some cb \<Rightarrow> (if cb_truthy cb then [make_progress_hook p] else [])
               | None \<Rightarrow> [])),
     (''retries'', PInt (retries config))]"
  define o2 where "o2 =
    (case str_or (proxy config) (default_proxy self) of
       Some p \<Rightarrow> (if p \<noteq> [] then AList.update ''proxy'' (PStr p) o1 else o1)
     | None \<Rightarrow> o1)"
  define o3 where "o3 =
    (case timeout config of
       Some t \<Rightarrow> AList.update ''socket_timeout'' (PInt t) o2
     | None \<Rightarrow> o2)"
  define o4 where "o4 =
    (case playlist_items config of
       Some p \<Rightarrow> AList.update ''playlist_items'' (PStr p) o3
     | None \<Rightarrow> o3)"
  have unfold: "derived_options self config out p l =
     (if audio_only config
      then setdefault_append (fst (dict_setdefault o4 ''format'' (PStr ''bestaudio/best'')))
             ''postprocessors'' audio_postprocessor
      else Inr o4)"
    unfolding derived_options_def Let_def o1_def o2_def o3_def o4_def ..
  have k2: "map_of o2 k = map_of o1 k" if "k \<noteq> ''proxy''" for k
    using that by (simp add: o2_def AList.update_conv' split: option.splits)
  have k3: "map_of o3 k = map_of o2 k" if "k \<noteq> ''socket_timeout''" for k
    using that by (simp add: o3_def AList.update_conv' split: option.splits)
  have k4: "map_of o4 k = map_of o3 k" if "k \<noteq> ''playlist_items''" for k
    using that by (simp add: o4_def AList.update_conv' split: option.splits)
  have base: "map_of o4 k = map_of o1 k"
    if "k \<noteq> ''proxy''" "k \<noteq> ''socket_timeout''" "k \<noteq> ''playlist_items''" for k
    using that by (simp add: k2 k3 k4)
  have f4: "map_of o4 ''format'' = Some (PStr (format config))"
    by (simp add: base o1_def)
  have n4: "map_of o4 ''noplaylist'' = Some (PBool (playlist_items config = None))"
    by (simp add: base o1_def)
  have h4: "map_of o4 ''progress_hooks'' =
      Some (PList (case p of None \<Rightarrow> []
                   | Some cb \<Rightarrow> (if cb_truthy cb then [make_progress_hook (Some cb)] else [])))"
    by (simp add: base o1_def split: option.splits)
  have pp4: "map_of o4 ''postprocessors'' = None"
    by (simp add: base o1_def)
  have pl4: "map_of o4 ''playlist_items'' = map_option PStr (playlist_items config)"
  proof (cases "playlist_items config")
    case None
    then have "map_of o4 ''playlist_items'' = map_of o1 ''playlist_items''"
      by (simp add: o4_def k3 k2)
    then show ?thesis using None by (simp add: o1_def)
  next
    case (Some s)
    then show ?thesis by (simp add: o4_def AList.update_conv')
  qed
  show ?thesis
  proof (cases "audio_only config")
    case False
    then show ?thesis using unfold f4 n4 h4 pp4 pl4 by simp
  next
    case True
    have "derived_options self config out p l =
        Inr (AList.update ''postprocessors'' (PList [audio_postprocessor]) o4)"
      using True unfold by (simp add: setdefault_present [OF f4] setdefault_append_absent [OF pp4])
    then show ?thesis using True f4 n4 h4 pl4 by (simp add: AList.update_conv')
  qed
qed

lemma build_lookup_absent:
  assumes "derived_options self config out p l = Inr d"
      and "map_of (extra_yt_dlp_options config) k = None"
  shows "\<exists>opts. build_yt_dlp_options self config out p l = Inr opts \<and> map_of opts k = map_of d k"
  using assms by (simp add: build_yt_dlp_options_def dict_update_absent)

text \<open>
  In audio-only mode the derived map gets the one extraction step, and it reaches yt-dlp
  unless the extra options bring a \<^verbatim>\<open>postprocessors\<close> entry of their own.
\<close>

lemma audio_only_postprocessors:
  assumes "audio_only config"
      and "map_of (extra_yt_dlp_options config) ''postprocessors'' = None"
  shows "\<exists>opts. build_yt_dlp_options self config out p l = Inr opts \<and>
           map_of opts ''postprocessors'' = Some (PList [audio_postprocessor])"
proof -
  obtain d where d: "derived_options self config out p l = Inr d"
    and pp: "map_of d ''postprocessors'' = Some (PList [audio_postprocessor])"
    using derived_options_lookup [of self config out p l] assms(1) by auto
  show ?thesis using build_lookup_absent [OF d assms(2)] pp by simp
qed

text \<open>
  C1. With \<open>audio_only\<close> set and the format left alone, the option map is claimed to
  ask for \<^verbatim>\<open>bestaudio/best\<close> and to hold one FFmpegExtractAudio step (mp3, 192). The
  second half holds. The first does not: \<^verbatim>\<open>DownloadConfig(url, audio_only=True)\<close>, every
  other field at its default, builds the map below, whose format is the dataclass default
  \<^verbatim>\<open>best\<close>. The key \<^verbatim>\<open>format\<close> is already in the map when
  \<^verbatim>\<open>setdefault("format", "bestaudio/best")\<close> runs, so that line never stores anything.
\<close>

theorem audio_only_keeps_config_format:
  "build_yt_dlp_options \<lparr>default_output_dir = ''downloads'', default_proxy = None, logger = 0\<rparr>
     ((DownloadConfig_defaults ''https://example.org/v'')\<lparr>audio_only := True\<rparr>) ''downloads'' None None =
   Inr [(''outtmpl'', PStr ''downloads/%(title)s.%(ext)s''),
        (''format'', PStr ''best''),
        (''noplaylist'', PBool True),
        (''logger'', PLogger 0 None),
        (''progress_hooks'', PList []),
        (''retries'', PInt 3),
        (''postprocessors'',
           PList [PDict [(''key'', PStr ''FFmpegExtractAudio''),
                         (''preferredcodec'', PStr ''mp3''),
                         (''preferredquality'', PStr ''192'')]])]"
  by (simp add: build_yt_dlp_options_def derived_options_def DownloadConfig_defaults_def
       Let_def str_or_def os_path_join_def dict_setdefault_def setdefault_append_def
       dict_update_def audio_postprocessor_def)

text \<open>
  C9. Whenever the extra options have no \<^verbatim>\<open>format\<close> key, the option map's format is
  \<open>format config\<close>, with \<open>audio_only\<close> set or not: the key is filled from the
  configuration first and \<^verbatim>\<open>setdefault\<close> never replaces a key that is there.
\<close>

theorem format_from_config:
  assumes "map_of (extra_yt_dlp_options config) ''format'' = None"
  shows "\<exists>opts. build_yt_dlp_options self config out p l = Inr opts \<and>
           map_of opts ''format'' = Some (PStr (format config))"
proof -
  obtain d where d: "derived_options self config out p l = Inr d"
    and f: "map_of d ''format'' = Some (PStr (format config))"
    using derived_options_lookup [of self config out p l] by blast
  show ?thesis using build_lookup_absent [OF d assms] f by simp
qed

theorem format_from_config_witness:
  "map_of (extra_yt_dlp_options ((DownloadConfig_defaults ''u'')\<lparr>audio_only := True\<rparr>))
      ''format'' = None \<and>
   (\<exists>opts. build_yt_dlp_options \<lparr>default_output_dir = ''downloads'', default_proxy = None, logger = 0\<rparr>
              ((DownloadConfig_defaults ''u'')\<lparr>audio_only := True\<rparr>) ''downloads'' None None
            = Inr opts \<and>
           map_of opts ''format'' = Some (PStr ''best''))"
  using format_from_config [of "(DownloadConfig_defaults ''u'')\<lparr>audio_only := True\<rparr>"
      "\<lparr>default_output_dir = ''downloads'', default_proxy = None, logger = 0\<rparr>" "''downloads''" None None]
  by (simp add: DownloadConfig_defaults_def)

text \<open>
  C4. The extra options are merged into the derived map last: every key of
  \<open>extra_yt_dlp_options\<close> has the extra value in the final map, whether or not the
  derived map had the key, and every other key keeps its derived value. The keys of the
  extra options are distinct, as those of a dict are.
\<close>

theorem extra_options_win:
  assumes "distinct (map fst (extra_yt_dlp_options config))"
  shows "\<exists>d opts. derived_options self config out p l = Inr d \<and>
           build_yt_dlp_options self config out p l = Inr opts \<and>
           (\<forall>k v. map_of (extra_yt_dlp_options config) k = Some v \<longrightarrow> map_of opts k = Some v) \<and>
           (\<forall>k. map_of (extra_yt_dlp_options config) k = None \<longrightarrow> map_of opts k = map_of d k)"
proof -
  obtain d where d: "derived_options self config out p l = Inr d"
    using derived_options_lookup [of self config out p l] by blast
  then have b: "build_yt_dlp_options self config out p l =
      Inr (dict_update d (extra_yt_dlp_options config))"
    by (simp add: build_yt_dlp_options_def)
  show ?thesis
    using d b assms by (simp add: dict_update_present dict_update_absent)
qed

theorem extra_options_win_witness:
  "distinct (map fst (extra_yt_dlp_options colliding_config)) \<and>
   (\<exists>opts. build_yt_dlp_options \<lparr>default_output_dir = ''downloads'', default_proxy = None, logger = 0\<rparr> colliding_config ''downloads'' None None = Inr opts \<and>
           map_of opts ''format'' = Some (PStr ''worst'') \<and>
           map_of opts ''noplaylist'' = Some (PBool False) \<and>
           map_of opts ''retries'' = Some (PInt 10))"
proof -
  have dist: "distinct (map fst (extra_yt_dlp_options colliding_config))"
    by (simp add: colliding_config_def DownloadConfig_defaults_def)
  have e1: "map_of (extra_yt_dlp_options colliding_config) ''format'' = Some (PStr ''worst'')"
    and e2: "map_of (extra_yt_dlp_options colliding_config) ''noplaylist'' = Some (PBool False)"
    and e3: "map_of (extra_yt_dlp_options colliding_config) ''retries'' = Some (PInt 10)"
    by (simp_all add: colliding_config_def DownloadConfig_defaults_def)
  show ?thesis
    using dist e1 e2 e3
      extra_options_win [OF dist, of "\<lparr>default_output_dir = ''downloads'', default_proxy = None, logger = 0\<rparr>" "''downloads''" None None]
    by blast
qed

text \<open>
  C5. In the derived map \<^verbatim>\<open>noplaylist\<close> is true exactly when \<open>playlist_items\<close> is
  None, and \<^verbatim>\<open>playlist_items\<close> is there, unchanged, exactly when it is not None (the
  empty string counts as set). The map handed to yt-dlp has the same two entries whenever
  the extra options do not bring their own.
\<close>

theorem noplaylist_iff_playlist_items_absent:
  "\<exists>d opts. derived_options self config out p l = Inr d \<and>
      map_of d ''noplaylist'' = Some (PBool (playlist_items config = None)) \<and>
      map_of d ''playlist_items'' = map_option PStr (playlist_items config) \<and>
      build_yt_dlp_options self config out p l = Inr opts \<and>
      (map_of (extra_yt_dlp_options config) ''noplaylist'' = None \<longrightarrow>
         map_of opts ''noplaylist'' = Some (PBool (playlist_items config = None))) \<and>
      (map_of (extra_yt_dlp_options config) ''playlist_items'' = None \<longrightarrow>
         map_of opts ''playlist_items'' = map_option PStr (playlist_items config))"
proof -
  obtain d where d: "derived_options self config out p l = Inr d"
    and n: "map_of d ''noplaylist'' = Some (PBool (playlist_items config = None))"
    and pl: "map_of d ''playlist_items'' = map_option PStr (playlist_items config)"
    using derived_options_lookup [of self config out p l] by blast
  have b: "build_yt_dlp_options self config out p l =
      Inr (dict_update d (extra_yt_dlp_options config))"
    using d by (simp add: build_yt_dlp_options_def)
  show ?thesis
    using d n pl b by (simp add: dict_update_absent)
qed

theorem noplaylist_iff_playlist_items_absent_witness:
  "map_of (extra_yt_dlp_options ((DownloadConfig_defaults ''u'')\<lparr>playlist_items := Some ''1-3''\<rparr>))
      ''noplaylist'' = None \<and>
   map_of (extra_yt_dlp_options ((DownloadConfig_defaults ''u'')\<lparr>playlist_items := Some ''1-3''\<rparr>))
      ''playlist_items'' = None \<and>
   (\<exists>opts. build_yt_dlp_options \<lparr>default_output_dir = ''downloads'', default_proxy = None, logger = 0\<rparr>
              ((DownloadConfig_defaults ''u'')\<lparr>playlist_items := Some ''1-3''\<rparr>)
              ''downloads'' None None = Inr opts \<and>
           map_of opts ''noplaylist'' = Some (PBool False) \<and>
           map_of opts ''playlist_items'' = Some (PStr ''1-3''))"
  using noplaylist_iff_playlist_items_absent
     [of "\<lparr>default_output_dir = ''downloads'', default_proxy = None, logger = 0\<rparr>"
         "(DownloadConfig_defaults ''u'')\<lparr>playlist_items := Some ''1-3''\<rparr>" "''downloads''" None None]
  by (auto simp add: DownloadConfig_defaults_def)

text \<open>
  C8, as stated: whenever a progress callback is supplied, exactly one hook is installed.
  The code installs the hook on \<^verbatim>\<open>if on_progress\<close>, the truth value of the callback,
  not on its presence: a supplied callable that is false gets no hook.
\<close>

theorem falsy_callable_gets_no_hook:
  "\<not> cb_truthy falsy_callable \<and>
   derived_options example_service (DownloadConfig_defaults ''https://example.org/v'')
     ''downloads'' (Some falsy_callable) None =
   Inr [(''outtmpl'', PStr ''downloads/%(title)s.%(ext)s''),
        (''format'', PStr ''best''),
        (''noplaylist'', PBool True),
        (''logger'', PLogger 0 None),
        (''progress_hooks'', PList []),
        (''retries'', PInt 3)]"
  by (simp add: derived_options_def DownloadConfig_defaults_def example_service_def
       falsy_callable_def Let_def str_or_def os_path_join_def)

text \<open>
  C8, amended. Without a progress callback the derived map's \<^verbatim>\<open>progress_hooks\<close> is the
  empty list. With a callback that is true, as every plain function is, it is the list of
  the one hook made for that callback; with a callable that is false it is the empty list
  again. The map handed to yt-dlp has the same entry whenever the extra options do not
  bring their own.
\<close>

theorem progress_hooks_by_callback:
  "(\<exists>d opts. derived_options self config out None l = Inr d \<and>
         map_of d ''progress_hooks'' = Some (PList []) \<and>
         build_yt_dlp_options self config out None l = Inr opts \<and>
         (map_of (extra_yt_dlp_options config) ''progress_hooks'' = None \<longrightarrow>
            map_of opts ''progress_hooks'' = Some (PList []))) \<and>
   (\<exists>d opts. derived_options self config out (Some cb) l = Inr d \<and>
         map_of d ''progress_hooks'' =
           Some (PList (if cb_truthy cb then [make_progress_hook (Some cb)] else [])) \<and>
         build_yt_dlp_options self config out (Some cb) l = Inr opts \<and>
         (map_of (extra_yt_dlp_options config) ''progress_hooks'' = None \<longrightarrow>
            map_of opts ''progress_hooks'' =
              Some (PList (if cb_truthy cb then [make_progress_hook (Some cb)] else []))))"
proof -
  have "\<exists>d opts. derived_options self config out p l = Inr d \<and>
         map_of d ''progress_hooks'' =
           Some (PList (case p of None \<Rightarrow> []
                        | Some c \<Rightarrow> (if cb_truthy c then [make_progress_hook (Some c)] else []))) \<and>
         build_yt_dlp_options self config out p l = Inr opts \<and>
         (map_of (extra_yt_dlp_options config) ''progress_hooks'' = None \<longrightarrow>
            map_of opts ''progress_hooks'' =
              Some (PList (case p of None \<Rightarrow> []
                           | Some c \<Rightarrow> (if cb_truthy c then [make_progress_hook (Some c)]
                                       else []))))"
    for p
  proof -
    obtain d where d: "derived_options self config out p l = Inr d"
      and h: "map_of d ''progress_hooks'' =
           Some (PList (case p of None \<Rightarrow> []
                        | Some c \<Rightarrow> (if cb_truthy c then [make_progress_hook (Some c)] else [])))"
      using derived_options_lookup [of self config out p l] by blast
    have b: "build_yt_dlp_options self config out p l =
        Inr (dict_update d (extra_yt_dlp_options config))"
      using d by (simp add: build_yt_dlp_options_def)
    show ?thesis using d h b by (simp add: dict_update_absent)
  qed
  from this [of None] this [of "Some cb"] show ?thesis by simp
qed

theorem progress_hooks_by_callback_witness:
  "map_of (extra_yt_dlp_options (DownloadConfig_defaults ''u'')) ''progress_hooks'' = None \<and>
   cb_truthy print_progress \<and>
   (\<exists>opts. build_yt_dlp_options example_service (DownloadConfig_defaults ''u'') ''downloads''
              None None = Inr opts \<and>
           map_of opts ''progress_hooks'' = Some (PList [])) \<and>
   (\<exists>opts. build_yt_dlp_options example_service (DownloadConfig_defaults ''u'') ''downloads''
              (Some print_progress) None = Inr opts \<and>
           map_of opts ''progress_hooks'' = Some (PList [PHook (Some print_progress)]))"
proof -
  have ex: "map_of (extra_yt_dlp_options (DownloadConfig_defaults ''u'')) ''progress_hooks'' = None"
    by (simp add: DownloadConfig_defaults_def)
  have tr: "cb_truthy print_progress" by (simp add: print_progress_def)
  from progress_hooks_by_callback
     [of example_service "DownloadConfig_defaults ''u''" "''downloads''" None print_progress]
    ex tr
  show ?thesis by (auto simp add: make_progress_hook_def)
qed


section \<open>The progress hook\<close>

text \<open>
  The hook raises exactly when the top-level filename is false and \<^verbatim>\<open>info_dict\<close> is
  there but is no dict; otherwise it calls the callback with the event below.
\<close>

lemma hook_raises:
  assumes "\<not> truthy (dict_get st ''filename'')"
      and "map_of st ''info_dict'' = Some v" and "\<forall>d. v \<noteq> PDict d"
  shows "hook (Some cb) st = Inl (no_attribute v ''get'')"
  using assms by (cases v) (simp_all add: hook_def Let_def)

lemma hook_delivers:
  assumes "truthy (dict_get st ''filename'') \<or> map_of st ''info_dict'' = None
             \<or> (\<exists>d. map_of st ''info_dict'' = Some (PDict d))"
  shows "hook (Some cb) st =
     Inr (Some (cb,
       \<lparr>status = (if dict_get st ''status'' = PStr ''downloading'' then Downloading
                  else if dict_get st ''status'' = PStr ''finished'' then Finished
                  else Error),
        downloaded_bytes = dict_get st ''downloaded_bytes'',
        total_bytes = (if truthy (dict_get st ''total_bytes'') then dict_get st ''total_bytes''
                       else dict_get st ''total_bytes_estimate''),
        speed = dict_get st ''speed'',
        eta = dict_get st ''eta'',
        filename = (if truthy (dict_get st ''filename'') then dict_get st ''filename''
                    else case map_of st ''info_dict'' of
                           Some (PDict d) \<Rightarrow> dict_get d ''filename''
                         | _ \<Rightarrow> PNone),
        raw = st\<rparr>))"
proof (cases "truthy (dict_get st ''filename'')")
  case True
  then show ?thesis by (simp add: hook_def Let_def py_or_def)
next
  case False
  with assms consider "map_of st ''info_dict'' = None"
    | d where "map_of st ''info_dict'' = Some (PDict d)" by auto
  then show ?thesis
  proof cases
    case 1
    with False show ?thesis by (simp add: hook_def Let_def py_or_def)
  next
    case 2
    with False show ?thesis by (simp add: hook_def Let_def py_or_def dict_get_def)
  qed
qed

lemma hook_delivered_only_if:
  assumes "hook (Some cb) st = Inr r"
  shows "truthy (dict_get st ''filename'') \<or> map_of st ''info_dict'' = None
             \<or> (\<exists>d. map_of st ''info_dict'' = Some (PDict d))"
proof (rule ccontr)
  assume neg: "\<not> ?thesis"
  then obtain v where v: "map_of st ''info_dict'' = Some v" by auto
  with neg have "\<forall>d. v \<noteq> PDict d" by auto
  with neg v have "hook (Some cb) st = Inl (no_attribute v ''get'')"
    by (intro hook_raises) auto
  with assms show False by simp
qed

lemma hook_delivered:
  assumes "hook (Some cb) st = Inr (Some (cb', ev))"
  shows "cb' = cb \<and> ev =
       \<lparr>status = (if dict_get st ''status'' = PStr ''downloading'' then Downloading
                  else if dict_get st ''status'' = PStr ''finished'' then Finished
                  else Error),
        downloaded_bytes = dict_get st ''downloaded_bytes'',
        total_bytes = (if truthy (dict_get st ''total_bytes'') then dict_get st ''total_bytes''
                       else dict_get st ''total_bytes_estimate''),
        speed = dict_get st ''speed'',
        eta = dict_get st ''eta'',
        filename = (if truthy (dict_get st ''filename'') then dict_get st ''filename''
                    else case map_of st ''info_dict'' of
                           Some (PDict d) \<Rightarrow> dict_get d ''filename''
                         | _ \<Rightarrow> PNone),
        raw = st\<rparr>"
proof -
  have "Inr (Some (cb', ev)) =
     (Inr (Some (cb,
       \<lparr>status = (if dict_get st ''status'' = PStr ''downloading'' then Downloading
                  else if dict_get st ''status'' = PStr ''finished'' then Finished
                  else Error),
        downloaded_bytes = dict_get st ''downloaded_bytes'',
        total_bytes = (if truthy (dict_get st ''total_bytes'') then dict_get st ''total_bytes''
                       else dict_get st ''total_bytes_estimate''),
        speed = dict_get st ''speed'',
        eta = dict_get st ''eta'',
        filename = (if truthy (dict_get st ''filename'') then dict_get st ''filename''
                    else case map_of st ''info_dict'' of
                           Some (PDict d) \<Rightarrow> dict_get d ''filename''
                         | _ \<Rightarrow> PNone),
        raw = st\<rparr>)) :: py_exn + (callback \<times> ProgressEvent) option)"
    using hook_delivers [OF hook_delivered_only_if [OF assms], of cb] assms by simp
  then show ?thesis by simp
qed

text \<open>
  C3, as stated: the event's \<open>total_bytes\<close> is the raw \<^verbatim>\<open>total_bytes\<close>, and the
  estimate only when the exact total is absent. It fails on a raw dictionary that has the
  exact total 0 and an estimate of 100: the event carries 100.
\<close>

theorem zero_total_replaced_by_estimate:
  "map_of stalled_progress ''total_bytes'' = Some (PInt 0) \<and>
   hook (Some print_progress) stalled_progress =
     Inr (Some (print_progress, \<lparr>status = Downloading, downloaded_bytes = PInt 50, total_bytes = PInt 100,
                     speed = PNone, eta = PNone, filename = PNone, raw = stalled_progress\<rparr>))"
  by (simp add: stalled_progress_def hook_def Let_def dict_get_def py_or_def)

text \<open>
  C3, amended. Every event the installed hook delivers goes to the registered callback and
  has: status downloading or finished when the raw status is that string, error for
  anything else; the raw \<^verbatim>\<open>downloaded_bytes\<close>; as \<open>total_bytes\<close> the raw
  \<^verbatim>\<open>total_bytes\<close> when that is true in Python's sense (not None, 0, 0.0 or empty) and
  the raw \<^verbatim>\<open>total_bytes_estimate\<close> otherwise; as \<open>filename\<close> the raw top-level
  filename when that is true (not None or empty) and the nested \<^verbatim>\<open>info_dict\<close> filename
  otherwise; and the whole raw dictionary. An event is delivered whenever the top-level
  filename is true, or \<^verbatim>\<open>info_dict\<close> is missing or a dict.
\<close>

theorem progress_event_of_raw:
  "(truthy (dict_get st ''filename'') \<or> map_of st ''info_dict'' = None
      \<or> (\<exists>d. map_of st ''info_dict'' = Some (PDict d))
    \<longrightarrow> (\<exists>ev. hook (Some cb) st = Inr (Some (cb, ev)))) \<and>
   (\<forall>cb' ev. hook (Some cb) st = Inr (Some (cb', ev)) \<longrightarrow>
      cb' = cb \<and>
      status ev = (if dict_get st ''status'' = PStr ''downloading'' then Downloading
                   else if dict_get st ''status'' = PStr ''finished'' then Finished
                   else Error) \<and>
      downloaded_bytes ev = dict_get st ''downloaded_bytes'' \<and>
      total_bytes ev = (if truthy (dict_get st ''total_bytes'') then dict_get st ''total_bytes''
                        else dict_get st ''total_bytes_estimate'') \<and>
      filename ev = (if truthy (dict_get st ''filename'') then dict_get st ''filename''
                     else case map_of st ''info_dict'' of
                            Some (PDict d) \<Rightarrow> dict_get d ''filename''
                          | _ \<Rightarrow> PNone) \<and>
      raw ev = st)"
proof (intro conjI allI impI)
  assume "truthy (dict_get st ''filename'') \<or> map_of st ''info_dict'' = None
      \<or> (\<exists>d. map_of st ''info_dict'' = Some (PDict d))"
  from hook_delivers [OF this, of cb] show "\<exists>ev. hook (Some cb) st = Inr (Some (cb, ev))"
    by simp
next
  fix cb' ev
  assume h: "hook (Some cb) st = Inr (Some (cb', ev))"
  note ev = hook_delivered [OF h]
  show "cb' = cb" using ev by simp
  show "status ev = (if dict_get st ''status'' = PStr ''downloading'' then Downloading
                   else if dict_get st ''status'' = PStr ''finished'' then Finished
                   else Error)" using ev by simp
  show "downloaded_bytes ev = dict_get st ''downloaded_bytes''" using ev by simp
  show "total_bytes ev = (if truthy (dict_get st ''total_bytes'') then dict_get st ''total_bytes''
                        else dict_get st ''total_bytes_estimate'')" using ev by simp
  show "filename ev = (if truthy (dict_get st ''filename'') then dict_get st ''filename''
                     else case map_of st ''info_dict'' of
                            Some (PDict d) \<Rightarrow> dict_get d ''filename''
                          | _ \<Rightarrow> PNone)" using ev by simp
  show "raw ev = st" using ev by simp
qed

theorem progress_event_of_raw_witness:
  "map_of halfway_progress ''info_dict'' = None \<and>
   (\<exists>ev. hook (Some print_progress) halfway_progress = Inr (Some (print_progress, ev)) \<and>
         status ev = Downloading \<and> downloaded_bytes ev = PInt 50 \<and>
         total_bytes ev = PInt 100 \<and> filename ev = PNone \<and> raw ev = halfway_progress)"
proof -
  have none: "map_of halfway_progress ''info_dict'' = None"
    by (simp add: halfway_progress_def)
  note t = progress_event_of_raw [of halfway_progress print_progress]
  from t none obtain ev where ev: "hook (Some print_progress) halfway_progress = Inr (Some (print_progress, ev))"
    by blast
  from t ev have
    "status ev = (if dict_get halfway_progress ''status'' = PStr ''downloading'' then Downloading
                   else if dict_get halfway_progress ''status'' = PStr ''finished'' then Finished
                   else Error)"
    "downloaded_bytes ev = dict_get halfway_progress ''downloaded_bytes''"
    "total_bytes ev = (if truthy (dict_get halfway_progress ''total_bytes'')
                       then dict_get halfway_progress ''total_bytes''
                       else dict_get halfway_progress ''total_bytes_estimate'')"
    "filename ev = (if truthy (dict_get halfway_progress ''filename'')
                     then dict_get halfway_progress ''filename''
                     else case map_of halfway_progress ''info_dict'' of
                            Some (PDict d) \<Rightarrow> dict_get d ''filename''
                          | _ \<Rightarrow> PNone)"
    "raw ev = halfway_progress"
    by blast+
  then have "status ev = Downloading \<and> downloaded_bytes ev = PInt 50 \<and>
         total_bytes ev = PInt 100 \<and> filename ev = PNone \<and> raw ev = halfway_progress"
    by (simp add: halfway_progress_def dict_get_def)
  with none ev show ?thesis by blast
qed

text \<open>
  C10. The fallbacks go by truth value, not by the presence of the key. A delivered event
  has the raw \<^verbatim>\<open>total_bytes\<close> when that is true and the raw estimate when it is false;
  so when \<^verbatim>\<open>total_bytes\<close> is there and is 0 or 0.0 and the estimate is a positive
  number, the event has the estimate and not the 0. It has the raw top-level filename when
  that is true and the nested \<^verbatim>\<open>info_dict\<close> filename when it is false (None if there is
  no \<^verbatim>\<open>info_dict\<close>); so when the top-level filename is there and is the empty string,
  the event has the nested one. An event is delivered whenever \<^verbatim>\<open>info_dict\<close> is
  missing or a dict.
\<close>

theorem fallbacks_decided_by_truthiness:
  "(map_of st ''info_dict'' = None \<or> (\<exists>d. map_of st ''info_dict'' = Some (PDict d))
    \<longrightarrow> (\<exists>ev. hook (Some cb) st = Inr (Some (cb, ev)))) \<and>
   (\<forall>cb' ev. hook (Some cb) st = Inr (Some (cb', ev)) \<longrightarrow>
      (truthy (dict_get st ''total_bytes'')
         \<longrightarrow> total_bytes ev = dict_get st ''total_bytes'') \<and>
      (\<not> truthy (dict_get st ''total_bytes'')
         \<longrightarrow> total_bytes ev = dict_get st ''total_bytes_estimate'') \<and>
      (\<forall>z est. map_of st ''total_bytes'' = Some z \<and> \<not> truthy z \<and>
           map_of st ''total_bytes_estimate'' = Some est \<and> truthy est
         \<longrightarrow> total_bytes ev = est \<and> total_bytes ev \<noteq> z) \<and>
      (truthy (dict_get st ''filename'')
         \<longrightarrow> filename ev = dict_get st ''filename'') \<and>
      (\<not> truthy (dict_get st ''filename'')
         \<longrightarrow> filename ev = (case map_of st ''info_dict'' of
                              Some (PDict d) \<Rightarrow> dict_get d ''filename''
                            | _ \<Rightarrow> PNone)) \<and>
      (\<forall>d. map_of st ''filename'' = Some (PStr []) \<and> map_of st ''info_dict'' = Some (PDict d)
         \<longrightarrow> filename ev = dict_get d ''filename''))"
proof (rule conjI)
  show "map_of st ''info_dict'' = None \<or> (\<exists>d. map_of st ''info_dict'' = Some (PDict d))
    \<longrightarrow> (\<exists>ev. hook (Some cb) st = Inr (Some (cb, ev)))"
  proof
    assume "map_of st ''info_dict'' = None \<or> (\<exists>d. map_of st ''info_dict'' = Some (PDict d))"
    then have "truthy (dict_get st ''filename'') \<or> map_of st ''info_dict'' = None
        \<or> (\<exists>d. map_of st ''info_dict'' = Some (PDict d))" by blast
    from hook_delivers [OF this, of cb] show "\<exists>ev. hook (Some cb) st = Inr (Some (cb, ev))"
      by simp
  qed
next
  show "\<forall>cb' ev. hook (Some cb) st = Inr (Some (cb', ev)) \<longrightarrow>
      (truthy (dict_get st ''total_bytes'')
         \<longrightarrow> total_bytes ev = dict_get st ''total_bytes'') \<and>
      (\<not> truthy (dict_get st ''total_bytes'')
         \<longrightarrow> total_bytes ev = dict_get st ''total_bytes_estimate'') \<and>
      (\<forall>z est. map_of st ''total_bytes'' = Some z \<and> \<not> truthy z \<and>
           map_of st ''total_bytes_estimate'' = Some est \<and> truthy est
         \<longrightarrow> total_bytes ev = est \<and> total_bytes ev \<noteq> z) \<and>
      (truthy (dict_get st ''filename'')
         \<longrightarrow> filename ev = dict_get st ''filename'') \<and>
      (\<not> truthy (dict_get st ''filename'')
         \<longrightarrow> filename ev = (case map_of st ''info_dict'' of
                              Some (PDict d) \<Rightarrow> dict_get d ''filename''
                            | _ \<Rightarrow> PNone)) \<and>
      (\<forall>d. map_of st ''filename'' = Some (PStr []) \<and> map_of st ''info_dict'' = Some (PDict d)
         \<longrightarrow> filename ev = dict_get d ''filename'')"
  proof (intro allI impI)
    fix cb' ev
    assume h: "hook (Some cb) st = Inr (Some (cb', ev))"
    note e = hook_delivered [OF h]
    have tb1: "truthy (dict_get st ''total_bytes'')
         \<longrightarrow> total_bytes ev = dict_get st ''total_bytes''"
      using e by simp
    have tb2: "\<not> truthy (dict_get st ''total_bytes'')
         \<longrightarrow> total_bytes ev = dict_get st ''total_bytes_estimate''"
      using e by simp
    have tb3: "\<forall>z est. map_of st ''total_bytes'' = Some z \<and> \<not> truthy z \<and>
           map_of st ''total_bytes_estimate'' = Some est \<and> truthy est
         \<longrightarrow> total_bytes ev = est \<and> total_bytes ev \<noteq> z"
      using tb2 by (auto simp: dict_get_def)
    have fn1: "truthy (dict_get st ''filename'')
         \<longrightarrow> filename ev = dict_get st ''filename''"
      using e by simp
    have fn2: "\<not> truthy (dict_get st ''filename'')
         \<longrightarrow> filename ev = (case map_of st ''info_dict'' of
                              Some (PDict d) \<Rightarrow> dict_get d ''filename''
                            | _ \<Rightarrow> PNone)"
      using e by simp
    have fn3: "\<forall>d. map_of st ''filename'' = Some (PStr []) \<and>
           map_of st ''info_dict'' = Some (PDict d)
         \<longrightarrow> filename ev = dict_get d ''filename''"
      using fn2 by (auto simp: dict_get_def)
    from tb1 tb2 tb3 fn1 fn2 fn3
    show "(truthy (dict_get st ''total_bytes'')
         \<longrightarrow> total_bytes ev = dict_get st ''total_bytes'') \<and>
      (\<not> truthy (dict_get st ''total_bytes'')
         \<longrightarrow> total_bytes ev = dict_get st ''total_bytes_estimate'') \<and>
      (\<forall>z est. map_of st ''total_bytes'' = Some z \<and> \<not> truthy z \<and>
           map_of st ''total_bytes_estimate'' = Some est \<and> truthy est
         \<longrightarrow> total_bytes ev = est \<and> total_bytes ev \<noteq> z) \<and>
      (truthy (dict_get st ''filename'')
         \<longrightarrow> filename ev = dict_get st ''filename'') \<and>
      (\<not> truthy (dict_get st ''filename'')
         \<longrightarrow> filename ev = (case map_of st ''info_dict'' of
                              Some (PDict d) \<Rightarrow> dict_get d ''filename''
                            | _ \<Rightarrow> PNone)) \<and>
      (\<forall>d. map_of st ''filename'' = Some (PStr []) \<and> map_of st ''info_dict'' = Some (PDict d)
         \<longrightarrow> filename ev = dict_get d ''filename'')"
      by blast
  qed
qed

theorem fallbacks_decided_by_truthiness_witness:
  "(\<exists>ev. hook (Some print_progress) unnamed_progress = Inr (Some (print_progress, ev)) \<and>
         map_of unnamed_progress ''total_bytes'' = Some (PInt 0) \<and>
         map_of unnamed_progress ''filename'' = Some (PStr []) \<and>
         total_bytes ev = PInt 100 \<and> filename ev = PStr ''a.mp4'') \<and>
   (\<exists>ev. hook (Some print_progress) float_progress = Inr (Some (print_progress, ev)) \<and>
         map_of float_progress ''total_bytes'' = Some (PFloat 0) \<and>
         total_bytes ev = PFloat 0x4059000000000000 \<and> filename ev = PNone) \<and>
   (\<exists>ev. hook (Some print_progress) named_progress = Inr (Some (print_progress, ev)) \<and>
         map_of named_progress ''total_bytes_estimate'' = Some (PInt 7) \<and>
         total_bytes ev = PInt 100 \<and> filename ev = PStr ''video.mp4'')"
proof (intro conjI)
  note t = fallbacks_decided_by_truthiness [of unnamed_progress print_progress]
  have nested: "map_of unnamed_progress ''info_dict'' = Some (PDict [(''filename'', PStr ''a.mp4'')])"
    and tb: "map_of unnamed_progress ''total_bytes'' = Some (PInt 0)"
    and est: "map_of unnamed_progress ''total_bytes_estimate'' = Some (PInt 100)"
    and fn: "map_of unnamed_progress ''filename'' = Some (PStr [])"
    by (simp_all add: unnamed_progress_def)
  from t nested obtain ev
    where ev: "hook (Some print_progress) unnamed_progress = Inr (Some (print_progress, ev))"
    by blast
  have "\<not> truthy (PInt 0)" "truthy (PInt 100)" by simp_all
  with t ev tb est have "total_bytes ev = PInt 100" by blast
  moreover from t ev fn nested
  have "filename ev = dict_get [(''filename'', PStr ''a.mp4'')] ''filename''" by blast
  then have "filename ev = PStr ''a.mp4''" by (simp add: dict_get_def)
  ultimately show "\<exists>ev. hook (Some print_progress) unnamed_progress
        = Inr (Some (print_progress, ev)) \<and>
      map_of unnamed_progress ''total_bytes'' = Some (PInt 0) \<and>
      map_of unnamed_progress ''filename'' = Some (PStr []) \<and>
      total_bytes ev = PInt 100 \<and> filename ev = PStr ''a.mp4''"
    using ev tb fn by blast
next
  note t = fallbacks_decided_by_truthiness [of float_progress print_progress]
  have none: "map_of float_progress ''info_dict'' = None"
    and tb: "map_of float_progress ''total_bytes'' = Some (PFloat 0)"
    and est: "map_of float_progress ''total_bytes_estimate'' = Some (PFloat 0x4059000000000000)"
    and fn: "\<not> truthy (dict_get float_progress ''filename'')"
    by (simp_all add: float_progress_def dict_get_def)
  from t none obtain ev
    where ev: "hook (Some print_progress) float_progress = Inr (Some (print_progress, ev))"
    by blast
  have "\<not> truthy (PFloat 0)" "truthy (PFloat 0x4059000000000000)" by simp_all
  with t ev tb est have "total_bytes ev = PFloat 0x4059000000000000" by blast
  moreover from t ev fn
  have "filename ev = (case map_of float_progress ''info_dict'' of
                              Some (PDict d) \<Rightarrow> dict_get d ''filename''
                            | _ \<Rightarrow> PNone)" by blast
  then have "filename ev = PNone" by (simp add: none)
  ultimately show "\<exists>ev. hook (Some print_progress) float_progress
        = Inr (Some (print_progress, ev)) \<and>
      map_of float_progress ''total_bytes'' = Some (PFloat 0) \<and>
      total_bytes ev = PFloat 0x4059000000000000 \<and> filename ev = PNone"
    using ev tb by blast
next
  note t = fallbacks_decided_by_truthiness [of named_progress print_progress]
  have nested: "map_of named_progress ''info_dict'' = Some (PDict [(''filename'', PStr ''other.mp4'')])"
    and tb: "dict_get named_progress ''total_bytes'' = PInt 100"
    and est: "map_of named_progress ''total_bytes_estimate'' = Some (PInt 7)"
    and fn: "dict_get named_progress ''filename'' = PStr ''video.mp4''"
    by (simp_all add: named_progress_def dict_get_def)
  from t nested obtain ev
    where ev: "hook (Some print_progress) named_progress = Inr (Some (print_progress, ev))"
    by blast
  have "truthy (dict_get named_progress ''total_bytes'')"
    and "truthy (dict_get named_progress ''filename'')"
    by (simp_all add: tb fn)
  with t ev have "total_bytes ev = dict_get named_progress ''total_bytes''"
    and "filename ev = dict_get named_progress ''filename''" by blast+
  then show "\<exists>ev. hook (Some print_progress) named_progress
        = Inr (Some (print_progress, ev)) \<and>
      map_of named_progress ''total_bytes_estimate'' = Some (PInt 7) \<and>
      total_bytes ev = PInt 100 \<and> filename ev = PStr ''video.mp4''"
    using ev est tb fn by auto
qed



section \<open>Downloads\<close>

lemma collect_requested_dicts:
  "collect_requested (map PDict ds) fps =
     (None, fps @ filter truthy (map (\<lambda>dx. dict_get dx ''_filename'') ds))"
  by (induction ds arbitrary: fps) (simp_all add: dict_get_def)

lemma infer_filepaths_singular:
  "map_of d ''_filename'' = Some p \<Longrightarrow> infer_filepaths (PDict d) = (None, [p])"
  by (simp add: infer_filepaths_def)

lemma infer_filepaths_requested:
  assumes "map_of d ''_filename'' = None"
      and "map_of d ''requested_downloads'' = Some (PList (map PDict ds))"
  shows "infer_filepaths (PDict d) =
           (None, filter truthy (map (\<lambda>dx. dict_get dx ''_filename'') ds))"
  using assms by (simp add: infer_filepaths_def collect_requested_dicts)

lemma infer_filepaths_neither:
  assumes "map_of d ''_filename'' = None" and "map_of d ''requested_downloads'' = None"
  shows "infer_filepaths (PDict d) = (None, [])"
  using assms by (simp add: infer_filepaths_def)

lemma download_unfold:
  assumes "makedirs e (effective_output_dir self config) = None"
      and "build_yt_dlp_options self config (effective_output_dir self config) p l = Inr opts"
  shows "download e self config p l =
     (case extract_info e opts (url config) True of
        Inl exc \<Rightarrow> except_branch e config l exc [] (PDict [])
      | Inr i \<Rightarrow>
          (case infer_filepaths i of
             (Some exc, fps) \<Rightarrow> except_branch e config l exc fps i
           | (None, fps) \<Rightarrow> Inr \<lparr>success = True, filepaths = fps, info = i, errors = []\<rparr>))"
  using assms by (simp add: download_def Let_def)

lemma build_total:
  "\<exists>opts. build_yt_dlp_options self config out p l = Inr opts"
  using derived_options_lookup [of self config out p l]
  by (auto simp: build_yt_dlp_options_def)

lemma py_contains_exn: "py_contains k v = Inl exc \<Longrightarrow> \<exists>m. exc = Exception m"
  by (cases v) (auto simp: not_a_container_def)

lemma py_getitem_exn: "py_getitem v k = Inl exc \<Longrightarrow> \<exists>m. exc = Exception m"
  by (cases v) (auto simp: not_subscriptable_def split: option.splits)

lemma py_get_exn: "py_get v k dflt = Inl exc \<Longrightarrow> \<exists>m. exc = Exception m"
  by (cases v) (auto simp: no_attribute_def)

lemma py_iter_exn: "py_iter v = Inl exc \<Longrightarrow> \<exists>m. exc = Exception m"
  by (cases v) (auto simp: not_iterable_def)

lemma collect_requested_exn:
  "collect_requested items fps = (Some exc, fps') \<Longrightarrow> \<exists>m. exc = Exception m"
proof (induction items arbitrary: fps)
  case Nil
  then show ?case by simp
next
  case (Cons item items)
  show ?case
  proof (cases "py_get item ''_filename'' PNone")
    case (Inl e)
    with Cons.prems have "exc = e" by simp
    with Inl show ?thesis using py_get_exn by blast
  next
    case (Inr path)
    with Cons.prems have
      "collect_requested items (if truthy path then fps @ [path] else fps) = (Some exc, fps')"
      by simp
    then show ?thesis by (rule Cons.IH)
  qed
qed

lemma infer_filepaths_exn:
  assumes "infer_filepaths i = (Some exc, fps)"
  shows "\<exists>m. exc = Exception m"
  using assms
  by (auto simp: infer_filepaths_def split: sum.splits bool.splits
        dest: py_contains_exn py_getitem_exn py_get_exn py_iter_exn collect_requested_exn)

text \<open>
  \<^verbatim>\<open>download\<close> itself raises in three cases: the directory cannot be made (that call is
  before the \<^verbatim>\<open>try\<close>), the library raises outside \<^verbatim>\<open>Exception\<close>, or the log
  callback raises while the failure is being reported.
\<close>

lemma download_makedirs_fails:
  "makedirs e (effective_output_dir self config) = Some exc
     \<Longrightarrow> download e self config p l = Inl exc"
  by (simp add: download_def Let_def)

lemma download_base_exception:
  assumes "makedirs e (effective_output_dir self config) = None"
      and "build_yt_dlp_options self config (effective_output_dir self config) p l = Inr opts"
      and "extract_info e opts (url config) True = Inl (BaseException m)"
  shows "download e self config p l = Inl (BaseException m)"
  using download_unfold [OF assms(1,2)] assms(3) by (simp add: except_branch_def)

lemma download_log_callback_raises:
  assumes "makedirs e (effective_output_dir self config) = None"
      and "build_yt_dlp_options self config (effective_output_dir self config) p (Some cb)
             = Inr opts"
      and "extract_info e opts (url config) True = Inl (Exception m)"
      and "call_log e cb \<lparr>level = ''error'',
              message = ''Download failed for URL '' @ url config @ '': '' @ m,
              log_context = None\<rparr> = Some exc"
  shows "download e self config p (Some cb) = Inl exc"
  using download_unfold [OF assms(1,2)] assms(3,4) by (simp add: except_branch_def Let_def)

text \<open>
  C2, as stated: \<open>success\<close> is true exactly when the library's call completed without
  raising, and then \<open>errors\<close> is empty. It fails when yt-dlp returns None, as it does
  for a failed extraction under \<^verbatim>\<open>ignoreerrors\<close>: the call did not raise, yet
  \<^verbatim>\<open>"_filename" in info\<close> raises TypeError inside the \<^verbatim>\<open>try\<close>, and the result is a
  failure that carries that message.
\<close>

theorem library_returning_None_fails:
  "download (quiet_env (Inr PNone)) example_service
     (DownloadConfig_defaults ''https://example.org/v'') None None =
   Inr \<lparr>success = False, filepaths = [], info = PNone,
        errors = [''argument of type '' @ quoted ''NoneType'' @ '' is not iterable'']\<rparr>"
proof -
  obtain opts where opts: "build_yt_dlp_options example_service
      (DownloadConfig_defaults ''https://example.org/v'')
      (effective_output_dir example_service (DownloadConfig_defaults ''https://example.org/v''))
      None None = Inr opts"
    using build_total by blast
  have mk: "makedirs (quiet_env (Inr PNone))
      (effective_output_dir example_service (DownloadConfig_defaults ''https://example.org/v''))
      = None"
    by (simp add: quiet_env_def)
  show ?thesis
    using download_unfold [OF mk opts]
    by (simp add: quiet_env_def infer_filepaths_def not_a_container_def except_branch_def)
qed

text \<open>
  C2, amended. When the output directory can be made, the log callback does not raise and
  the library raises nothing outside \<^verbatim>\<open>Exception\<close>, \<^verbatim>\<open>download\<close> returns a result.
  Its \<open>success\<close> is true exactly when the library's call returned and the inference of the
  file paths from the returned value raised nothing. When the call raises with message
  \<open>m\<close> the result has \<open>success\<close> false, \<open>errors\<close> \<open>[m]\<close> and no file paths. Whenever
  \<open>success\<close> is true, \<open>errors\<close> is empty.
\<close>

theorem download_contract:
  assumes mk: "makedirs e (effective_output_dir self config) = None"
      and opts: "build_yt_dlp_options self config (effective_output_dir self config)
                   on_progress on_log = Inr opts"
      and log: "\<forall>cb ev. on_log = Some cb \<longrightarrow> call_log e cb ev = None"
      and base: "\<forall>m. extract_info e opts (url config) True \<noteq> Inl (BaseException m)"
  shows "\<exists>r. download e self config on_progress on_log = Inr r \<and>
           (success r \<longleftrightarrow>
              (\<exists>i fps. extract_info e opts (url config) True = Inr i \<and>
                       infer_filepaths i = (None, fps))) \<and>
           (\<forall>m. extract_info e opts (url config) True = Inl (Exception m) \<longrightarrow>
                 \<not> success r \<and> errors r = [m] \<and> filepaths r = []) \<and>
           (success r \<longrightarrow> errors r = [])"
proof -
  have handler: "except_branch e config on_log (Exception m) fps i =
      Inr \<lparr>success = False, filepaths = fps, info = i, errors = [m]\<rparr>" for m fps i
    using log by (cases on_log) (simp_all add: except_branch_def Let_def)
  show ?thesis
  proof (cases "extract_info e opts (url config) True")
    case (Inl exc)
    with base obtain m where m: "exc = Exception m" by (cases exc) auto
    have "download e self config on_progress on_log =
        Inr \<lparr>success = False, filepaths = [], info = PDict [], errors = [m]\<rparr>"
      using download_unfold [OF mk opts] Inl m handler by simp
    with Inl m show ?thesis by simp
  next
    case (Inr i)
    obtain x fps where inf: "infer_filepaths i = (x, fps)" by (cases "infer_filepaths i")
    show ?thesis
    proof (cases x)
      case None
      have "download e self config on_progress on_log =
          Inr \<lparr>success = True, filepaths = fps, info = i, errors = []\<rparr>"
        using download_unfold [OF mk opts] Inr inf None by simp
      with Inr inf None show ?thesis by simp
    next
      case (Some exc)
      with inf obtain m where m: "exc = Exception m" using infer_filepaths_exn by blast
      have "download e self config on_progress on_log =
          Inr \<lparr>success = False, filepaths = fps, info = i, errors = [m]\<rparr>"
        using download_unfold [OF mk opts] Inr inf Some m handler by simp
      with Inr inf Some show ?thesis by simp
    qed
  qed
qed

theorem download_contract_witness:
  "\<exists>r. download (quiet_env (Inl (Exception ''network unreachable''))) example_service
          (DownloadConfig_defaults ''https://example.org/v'') None None = Inr r \<and>
        \<not> success r \<and> errors r = [''network unreachable''] \<and> filepaths r = []"
proof -
  let ?e = "quiet_env (Inl (Exception ''network unreachable''))"
  let ?c = "DownloadConfig_defaults ''https://example.org/v''"
  obtain opts where opts: "build_yt_dlp_options example_service ?c
      (effective_output_dir example_service ?c) None None = Inr opts"
    using build_total by blast
  have mk: "makedirs ?e (effective_output_dir example_service ?c) = None"
    by (simp add: quiet_env_def)
  have log: "\<forall>cb ev. (None :: callback option) = Some cb \<longrightarrow> call_log ?e cb ev = None"
    by simp
  have lib: "extract_info ?e opts (url ?c) True = Inl (Exception ''network unreachable'')"
    by (simp add: quiet_env_def)
  have base: "\<forall>m. extract_info ?e opts (url ?c) True \<noteq> Inl (BaseException m)"
    by (simp add: lib)
  from download_contract [OF mk opts log base] lib show ?thesis by auto
qed

text \<open>
  C6, as stated: from \<^verbatim>\<open>requested_downloads\<close> the file paths are the \<^verbatim>\<open>_filename\<close>
  of every entry, skipping only the entries without one. The code skips on
  \<^verbatim>\<open>if path:\<close>, the truth value: an entry that has \<^verbatim>\<open>_filename\<close> with the empty
  string is dropped as well.
\<close>

theorem empty_filename_entry_skipped:
  "empty_name_info =
     PDict [(''requested_downloads'',
             PList [PDict [(''_filename'', PStr [])],
                    PDict [(''_filename'', PStr ''b.mp4'')]])] \<and>
   download (quiet_env (Inr empty_name_info)) example_service
     (DownloadConfig_defaults ''https://example.org/v'') None None =
   Inr \<lparr>success = True, filepaths = [PStr ''b.mp4''], info = empty_name_info, errors = []\<rparr>"
proof -
  obtain opts where opts: "build_yt_dlp_options example_service
      (DownloadConfig_defaults ''https://example.org/v'')
      (effective_output_dir example_service (DownloadConfig_defaults ''https://example.org/v''))
      None None = Inr opts"
    using build_total by blast
  have mk: "makedirs (quiet_env (Inr empty_name_info))
      (effective_output_dir example_service (DownloadConfig_defaults ''https://example.org/v''))
      = None"
    by (simp add: quiet_env_def)
  have "infer_filepaths empty_name_info = (None, [PStr ''b.mp4''])"
    by (simp add: empty_name_info_def infer_filepaths_def)
  then show ?thesis
    using download_unfold [OF mk opts]
    by (simp add: quiet_env_def empty_name_info_def)
qed

text \<open>
  C6, amended. When the library returns a dict, the file paths are: the value of
  \<^verbatim>\<open>_filename\<close> alone when the dict has that key, whatever the value; otherwise, when it
  has \<^verbatim>\<open>requested_downloads\<close>, a list of dicts, the \<^verbatim>\<open>_filename\<close> of every entry in
  list order, skipping the entries where it is missing or false (None, the empty string).
  The spec's example, two entries \<^verbatim>\<open>a.mp4\<close> and \<^verbatim>\<open>b.mp4\<close>, gives those two paths
  in that order.
\<close>

theorem filepaths_from_info:
  assumes mk: "makedirs e (effective_output_dir self config) = None"
      and opts: "build_yt_dlp_options self config (effective_output_dir self config)
                   on_progress on_log = Inr opts"
      and lib: "extract_info e opts (url config) True = Inr (PDict d)"
  shows "(\<forall>p. map_of d ''_filename'' = Some p \<longrightarrow>
            download e self config on_progress on_log =
              Inr \<lparr>success = True, filepaths = [p], info = PDict d, errors = []\<rparr>) \<and>
         (\<forall>ds. map_of d ''_filename'' = None \<and>
               map_of d ''requested_downloads'' = Some (PList (map PDict ds)) \<longrightarrow>
            download e self config on_progress on_log =
              Inr \<lparr>success = True,
                   filepaths = filter truthy (map (\<lambda>entry. dict_get entry ''_filename'') ds),
                   info = PDict d, errors = []\<rparr>)"
  using download_unfold [OF mk opts] lib
  by (simp add: infer_filepaths_singular infer_filepaths_requested)

theorem filepaths_from_info_witness:
  "download (quiet_env (Inr two_files_info)) example_service
     (DownloadConfig_defaults ''https://example.org/v'') None None =
   Inr \<lparr>success = True, filepaths = [PStr ''a.mp4'', PStr ''b.mp4''],
        info = two_files_info, errors = []\<rparr>"
proof -
  let ?e = "quiet_env (Inr two_files_info)"
  let ?c = "DownloadConfig_defaults ''https://example.org/v''"
  let ?d = "[(''requested_downloads'',
             PList (map PDict [[(''_filename'', PStr ''a.mp4'')],
                               [(''_filename'', PStr ''b.mp4'')]]))]"
  obtain opts where opts: "build_yt_dlp_options example_service ?c
      (effective_output_dir example_service ?c) None None = Inr opts"
    using build_total by blast
  have mk: "makedirs ?e (effective_output_dir example_service ?c) = None"
    by (simp add: quiet_env_def)
  have lib: "extract_info ?e opts (url ?c) True = Inr (PDict ?d)"
    by (simp add: quiet_env_def two_files_info_def)
  have keys: "map_of ?d ''_filename'' = None \<and>
      map_of ?d ''requested_downloads'' =
        Some (PList (map PDict [[(''_filename'', PStr ''a.mp4'')],
                                [(''_filename'', PStr ''b.mp4'')]]))"
    by simp
  from filepaths_from_info [OF mk opts lib] keys
  have "download ?e example_service ?c None None =
      Inr \<lparr>success = True,
           filepaths = filter truthy (map (\<lambda>entry. dict_get entry ''_filename'')
                         [[(''_filename'', PStr ''a.mp4'')], [(''_filename'', PStr ''b.mp4'')]]),
           info = PDict ?d, errors = []\<rparr>"
    by blast
  then show ?thesis by (simp add: dict_get_def two_files_info_def)
qed

text \<open>
  C7, as stated: \<^verbatim>\<open>get_info\<close> lets the library's exception through, in contrast to
  \<^verbatim>\<open>download\<close>, which never raises. The part about \<^verbatim>\<open>get_info\<close> holds. But
  \<^verbatim>\<open>download\<close> does raise: with a log callback that raises, the library's failure is
  caught and the callback's exception then leaves the handler.
\<close>

theorem download_raises_from_log_callback:
  "download raising_log_env example_service
     (DownloadConfig_defaults ''https://example.org/v'') None (Some print_log) =
   Inl (Exception ''log sink closed'')"
proof -
  obtain opts where opts: "build_yt_dlp_options example_service
      (DownloadConfig_defaults ''https://example.org/v'')
      (effective_output_dir example_service (DownloadConfig_defaults ''https://example.org/v''))
      None (Some print_log) = Inr opts"
    using build_total by blast
  have mk: "makedirs raising_log_env
      (effective_output_dir example_service (DownloadConfig_defaults ''https://example.org/v''))
      = None"
    by (simp add: raising_log_env_def)
  show ?thesis
    using download_unfold [OF mk opts]
    by (simp add: raising_log_env_def except_branch_def Let_def)
qed

text \<open>
  C7, amended. \<^verbatim>\<open>get_info\<close> returns the metadata the library returns and raises the
  exception the library raises, unchanged: nothing is caught around the call, which is a
  metadata-only fetch. \<^verbatim>\<open>download\<close> is the contrast: when the library raises an
  \<^verbatim>\<open>Exception\<close> with message \<open>m\<close>, it catches it and returns a result with \<open>success\<close>
  false and \<open>errors\<close> \<open>[m]\<close>, provided the output directory could be made and the log
  callback, if there is one, does not raise.
\<close>

theorem get_info_propagates:
  "(\<forall>i. extract_info e (get_info_options self prx) u False = Inr i \<longrightarrow>
        get_info e self u prx = Inr i) \<and>
   (\<forall>exc. extract_info e (get_info_options self prx) u False = Inl exc \<longrightarrow>
        get_info e self u prx = Inl exc) \<and>
   map_of (get_info_options self prx) ''skip_download'' = Some (PBool True) \<and>
   (\<forall>opts m. makedirs e (effective_output_dir self config) = None \<and>
        build_yt_dlp_options self config (effective_output_dir self config) on_progress on_log
          = Inr opts \<and>
        extract_info e opts (url config) True = Inl (Exception m) \<and>
        (\<forall>cb ev. on_log = Some cb \<longrightarrow> call_log e cb ev = None) \<longrightarrow>
        download e self config on_progress on_log =
          Inr \<lparr>success = False, filepaths = [], info = PDict [], errors = [m]\<rparr>)"
proof (intro conjI allI impI)
  fix i assume "extract_info e (get_info_options self prx) u False = Inr i"
  then show "get_info e self u prx = Inr i" by (simp add: get_info_def)
next
  fix exc assume "extract_info e (get_info_options self prx) u False = Inl exc"
  then show "get_info e self u prx = Inl exc" by (simp add: get_info_def)
next
  show "map_of (get_info_options self prx) ''skip_download'' = Some (PBool True)"
    by (simp add: get_info_options_def Let_def AList.update_conv' split: option.splits)
next
  fix opts m
  assume a: "makedirs e (effective_output_dir self config) = None \<and>
        build_yt_dlp_options self config (effective_output_dir self config) on_progress on_log
          = Inr opts \<and>
        extract_info e opts (url config) True = Inl (Exception m) \<and>
        (\<forall>cb ev. on_log = Some cb \<longrightarrow> call_log e cb ev = None)"
  then have mk: "makedirs e (effective_output_dir self config) = None"
    and opts: "build_yt_dlp_options self config (effective_output_dir self config)
                 on_progress on_log = Inr opts"
    and lib: "extract_info e opts (url config) True = Inl (Exception m)"
    and log: "\<forall>cb ev. on_log = Some cb \<longrightarrow> call_log e cb ev = None"
    by simp_all
  have "except_branch e config on_log (Exception m) [] (PDict []) =
      Inr \<lparr>success = False, filepaths = [], info = PDict [], errors = [m]\<rparr>"
    using log by (cases on_log) (simp_all add: except_branch_def Let_def)
  then show "download e self config on_progress on_log =
          Inr \<lparr>success = False, filepaths = [], info = PDict [], errors = [m]\<rparr>"
    using download_unfold [OF mk opts] lib by simp
qed

theorem get_info_propagates_witness:
  "get_info (quiet_env (Inl (Exception ''video unavailable''))) example_service
     ''https://example.org/v'' None = Inl (Exception ''video unavailable'') \<and>
   get_info (quiet_env (Inr two_files_info)) example_service
     ''https://example.org/v'' None = Inr two_files_info \<and>
   download (quiet_env (Inl (Exception ''video unavailable''))) example_service
     (DownloadConfig_defaults ''https://example.org/v'') None (Some print_log) =
     Inr \<lparr>success = False, filepaths = [], info = PDict [], errors = [''video unavailable'']\<rparr>"
proof -
  let ?e = "quiet_env (Inl (Exception ''video unavailable''))"
  let ?c = "DownloadConfig_defaults ''https://example.org/v''"
  obtain opts where opts: "build_yt_dlp_options example_service ?c
      (effective_output_dir example_service ?c) None (Some print_log) = Inr opts"
    using build_total by blast
  have mk: "makedirs ?e (effective_output_dir example_service ?c) = None"
    by (simp add: quiet_env_def)
  have lib: "extract_info ?e opts (url ?c) True = Inl (Exception ''video unavailable'')"
    by (simp add: quiet_env_def)
  have log: "\<forall>cb ev. Some print_log = Some cb \<longrightarrow> call_log ?e cb ev = None"
    by (simp add: quiet_env_def)
  have g1: "extract_info ?e (get_info_options example_service None) ''https://example.org/v'' False
      = Inl (Exception ''video unavailable'')"
    by (simp add: quiet_env_def)
  have g2: "extract_info (quiet_env (Inr two_files_info)) (get_info_options example_service None)
      ''https://example.org/v'' False = Inr two_files_info"
    by (simp add: quiet_env_def)
  note t1 = get_info_propagates [of ?e example_service None "''https://example.org/v''" ?c None
      "Some print_log"]
  note t2 = get_info_propagates [of "quiet_env (Inr two_files_info)" example_service None
      "''https://example.org/v''" ?c None "Some print_log"]
  from t1 g1 have a: "get_info ?e example_service ''https://example.org/v'' None
      = Inl (Exception ''video unavailable'')" by blast
  from t2 g2 have b: "get_info (quiet_env (Inr two_files_info)) example_service
      ''https://example.org/v'' None = Inr two_files_info" by blast
  from t1 mk opts lib log have c: "download ?e example_service ?c None (Some print_log) =
     Inr \<lparr>success = False, filepaths = [], info = PDict [], errors = [''video unavailable'']\<rparr>"
    by blast
  from a b c show ?thesis by blast
qed


end
